theory Spec2Isabelle
  imports Complex_Main "HOL-Library.Sublist"
begin

section \<open>Platform primitives used by the sources\<close>

text \<open>
  JavaScript strings are modelled as \<^typ>\<open>string\<close>; \<open>String.prototype.includes\<close> is the
  contiguous-substring test, written as the scan it performs.
\<close>

fun str_includes :: "string \<Rightarrow> string \<Rightarrow> bool" where
  "str_includes [] pat = (pat = [])"
| "str_includes (c # cs) pat = (prefix pat (c # cs) \<or> str_includes cs pat)"

text \<open>
  Rendering of an integer-valued number inside a template literal (\<open>`${n}`\<close>): decimal
  digits, with a leading minus sign for negative values.
\<close>

definition digitChar :: "nat \<Rightarrow> char" where
  "digitChar d = ''0123456789'' ! d"

fun digitsOf :: "nat \<Rightarrow> string" where
  "digitsOf n = (if n < 10 then [digitChar n] else digitsOf (n div 10) @ [digitChar (n mod 10)])"

declare digitsOf.simps [simp del]

definition numberToString :: "int \<Rightarrow> string" where
  "numberToString i = (if i < 0 then CHR ''-'' # digitsOf (nat (- i)) else digitsOf (nat i))"

text \<open>A nullable string inside a template literal: \<open>null\<close> is rendered as the text "null".\<close>

definition nullableToString :: "string option \<Rightarrow> string" where
  "nullableToString v = (case v of None \<Rightarrow> ''null'' | Some s \<Rightarrow> s)"


section \<open>ban-detector.ts: the signal record and the verdict\<close>

text \<open>
  \<open>interface BanSignals\<close>. The nullable fields are options (\<open>None\<close> is \<open>null\<close>); HTTP
  statuses and millisecond clock readings are integers.
\<close>

record BanSignals =
  captchaDetected :: bool
  httpError :: "int option"
  unexpectedRedirect :: bool
  contentMissing :: bool
  jsChallenge :: bool
  responseTimeMs :: int
  blockedUrl :: "string option"

definition isBanned :: "BanSignals \<Rightarrow> bool" where
  "isBanned signals =
     (captchaDetected signals \<or>
      httpError signals \<noteq> None \<or>
      unexpectedRedirect signals \<or>
      jsChallenge signals)"

definition getBanReason :: "BanSignals \<Rightarrow> string option" where
  "getBanReason signals =
     (if captchaDetected signals then Some ''CAPTCHA''
      else if httpError signals \<noteq> None then Some (''HTTP '' @ numberToString (the (httpError signals)))
      else if jsChallenge signals then Some ''JS Challenge''
      else if unexpectedRedirect signals then Some (''Redirect to '' @ nullableToString (blockedUrl signals))
      else None)"


text \<open>
  \<open>setupResponseMonitor\<close>. The closure variable \<open>lastHttpError\<close> is the monitor's whole
  state; it starts as \<open>null\<close>, the \<open>response\<close> handler updates it, and \<open>getHttpError\<close>
  reads it.
\<close>

definition blockingStatuses :: "int list" where
  "blockingStatuses = [403, 429, 503, 520, 521, 522, 523, 524]"

definition setupResponseMonitor :: "int option" where
  "setupResponseMonitor = None"

definition onResponse :: "int option \<Rightarrow> int \<Rightarrow> int option" where
  "onResponse lastHttpError status =
     (if status \<in> set blockingStatuses then Some status else lastHttpError)"

definition getHttpError :: "int option \<Rightarrow> int option" where
  "getHttpError lastHttpError = lastHttpError"

text \<open>The responses of one visit reach the handler in chronological order.\<close>

fun observeResponses :: "int option \<Rightarrow> int list \<Rightarrow> int option" where
  "observeResponses lastHttpError [] = lastHttpError"
| "observeResponses lastHttpError (status # later) =
     observeResponses (onResponse lastHttpError status) later"

text \<open>
  The page as the code reads it: which selectors \<open>page.$\<close> resolves, the serialized
  content, the current URL, the viewport size (width, height; \<open>None\<close> when
  \<open>page.viewportSize()\<close> is \<open>null\<close>), and for each anchor found by \<open>page.$$('a')\<close> the
  result of its \<open>boundingBox()\<close> (x, y, width, height; \<open>None\<close> for \<open>null\<close>).
\<close>

type_synonym box = "real \<times> real \<times> real \<times> real"

record Page =
  query :: "string \<Rightarrow> bool"
  content :: string
  url :: string
  viewportSize :: "(real \<times> real) option"
  links :: "box option list"

definition CAPTCHA_SELECTORS :: "string list" where
  \<open>CAPTCHA_SELECTORS =
     [''iframe[src*="recaptcha"]'',
      ''iframe[src*="captcha"]'',
      ''iframe[src*="hcaptcha"]'',
      ''#captcha'',
      ''.g-recaptcha'',
      ''.h-captcha'',
      ''[data-sitekey]'']\<close>

definition JS_CHALLENGE_INDICATORS :: "string list" where
  "JS_CHALLENGE_INDICATORS =
     [''Checking your browser'',
      ''Please wait'',
      ''Just a moment'',
      ''Verify you are human'',
      ''DDoS protection by'']"

definition BLOCK_PAGE_PATTERNS :: "string list" where
  "BLOCK_PAGE_PATTERNS = [''/error'', ''/block'', ''/access-denied'', ''/forbidden'']"

text \<open>Exceptions as values: the error class and its message.\<close>

datatype jsError = TypeError string | Error string

fun message :: "jsError \<Rightarrow> string" where
  "message (TypeError m) = m"
| "message (Error m) = m"

text \<open>The three scanning loops of \<open>detectBanSignals\<close>; each stops at its first hit.\<close>

fun checkCaptcha :: "Page \<Rightarrow> string list \<Rightarrow> BanSignals \<Rightarrow> BanSignals" where
  "checkCaptcha page [] signals = signals"
| "checkCaptcha page (selector # rest) signals =
     (if query page selector then signals\<lparr>captchaDetected := True\<rparr>
      else checkCaptcha page rest signals)"

fun checkJsChallenge :: "string \<Rightarrow> string list \<Rightarrow> BanSignals \<Rightarrow> BanSignals" where
  "checkJsChallenge pageContent [] signals = signals"
| "checkJsChallenge pageContent (indicator # rest) signals =
     (if str_includes pageContent indicator then signals\<lparr>jsChallenge := True\<rparr>
      else checkJsChallenge pageContent rest signals)"

fun checkBlockPage :: "string \<Rightarrow> string list \<Rightarrow> BanSignals \<Rightarrow> BanSignals" where
  "checkBlockPage currentUrl [] signals = signals"
| "checkBlockPage currentUrl (pattern # rest) signals =
     (if str_includes currentUrl pattern
      then signals\<lparr>unexpectedRedirect := True, blockedUrl := Some currentUrl\<rparr>
      else checkBlockPage currentUrl rest signals)"

text \<open>
  \<open>detectBanSignals\<close>. The platform's \<open>new URL(s).hostname\<close> is the parameter \<open>hostname\<close>:
  it yields the host of a string that parses and \<open>None\<close> where the constructor throws its
  \<open>TypeError\<close>. \<open>now\<close> is the reading of \<open>Date.now()\<close> when the record is created. The function
  has no \<open>try\<close>, so a throw of the URL constructor leaves it: that is the \<open>Inl\<close> result.
\<close>

definition detectBanSignals ::
  "(string \<Rightarrow> string option) \<Rightarrow> Page \<Rightarrow> int \<Rightarrow> int \<Rightarrow> string \<Rightarrow> jsError + BanSignals" where
  "detectBanSignals hostname page now startTime expectedUrl =
     (let signals0 = \<lparr>captchaDetected = False, httpError = None, unexpectedRedirect = False,
                      contentMissing = False, jsChallenge = False,
                      responseTimeMs = now - startTime, blockedUrl = None\<rparr>;
          signals1 = checkCaptcha page CAPTCHA_SELECTORS signals0;
          pageContent = content page;
          signals2 = checkJsChallenge pageContent JS_CHALLENGE_INDICATORS signals1;
          currentUrl = url page;
          signals3 = checkBlockPage currentUrl BLOCK_PAGE_PATTERNS signals2
      in case hostname expectedUrl of
           None \<Rightarrow> Inl (TypeError ''Invalid URL'')
         | Some expectedDomain \<Rightarrow>
             (case hostname currentUrl of
                None \<Rightarrow> Inl (TypeError ''Invalid URL'')
              | Some currentDomain \<Rightarrow>
                  Inr (if expectedDomain \<noteq> currentDomain \<and> \<not> str_includes currentDomain expectedDomain
                       then signals3\<lparr>unexpectedRedirect := True, blockedUrl := Some currentUrl\<rparr>
                       else signals3)))"

text \<open>
  A concrete reading of the URL constructor for plain absolute URLs: a string with no
  \<open>://\<close> after its scheme does not parse (the constructor throws \<open>TypeError\<close> on it, having
  no base URL to resolve against); otherwise the host is the text between \<open>://\<close> and the
  next \<open>/\<close>.
\<close>

fun afterScheme :: "string \<Rightarrow> string option" where
  "afterScheme [] = None"
| "afterScheme (c # cs) =
     (if prefix ''://'' (c # cs) then Some (drop 3 (c # cs)) else afterScheme cs)"

definition plainHostname :: "string \<Rightarrow> string option" where
  "plainHostname s = map_option (takeWhile (\<lambda>c. c \<noteq> CHR ''/'')) (afterScheme s)"


section \<open>JavaScript numbers\<close>

text \<open>
  A JavaScript number is an IEEE 754 binary64 value: \<open>NaN\<close>, one of the two infinities, or a
  finite double, held as the real number it denotes. The two zeros are identified: the sign
  of a zero is observable only through a division by it, and the one division of these
  sources (\<open>i / steps\<close>) has a loop counter and a step count as operands.
\<close>

datatype jsnum = NaN | PosInf | NegInf | Fin real

text \<open>
  Rounding a real to binary64, to nearest with ties to even. \<open>expo x\<close> is the exponent of the
  binade of \<open>x\<close>, found by scanning from 0 and kept within \<open>-1022\<close> (where the subnormals
  start) and 1024; the doubles of that binade are the multiples of \<open>2 powi (expo x - 52)\<close>.
  \<open>toNum\<close> is the rounding with overflow: a rounded magnitude of \<open>2 ^ 1024\<close> or more is an
  infinity.
\<close>

fun expoUp :: "nat \<Rightarrow> int \<Rightarrow> real \<Rightarrow> int" where
  "expoUp 0 e a = e"
| "expoUp (Suc n) e a = (if 2 powi (e + 1) \<le> a then expoUp n (e + 1) a else e)"

fun expoDown :: "nat \<Rightarrow> int \<Rightarrow> real \<Rightarrow> int" where
  "expoDown 0 e a = e"
| "expoDown (Suc n) e a = (if a < 2 powi e then expoDown n (e - 1) a else e)"

definition expo :: "real \<Rightarrow> int" where
  "expo x = (if 1 \<le> \<bar>x\<bar> then expoUp 1024 0 \<bar>x\<bar> else expoDown 1022 0 \<bar>x\<bar>)"

definition roundTiesEven :: "real \<Rightarrow> int" where
  "roundTiesEven y =
     (let f = \<lfloor>y\<rfloor>; d = y - of_int f
      in if d < 1 / 2 then f else if 1 / 2 < d then f + 1 else if even f then f else f + 1)"

definition fl64 :: "real \<Rightarrow> real" where
  "fl64 x = of_int (roundTiesEven (x / 2 powi (expo x - 52))) * 2 powi (expo x - 52)"

definition toNum :: "real \<Rightarrow> jsnum" where
  "toNum x =
     (let r = fl64 x
      in if 2 ^ 1024 \<le> r then PosInf else if r \<le> - (2 ^ 1024) then NegInf else Fin r)"

text \<open>A decimal literal of the source text denotes the double nearest to it.\<close>

definition lit :: "real \<Rightarrow> jsnum" where
  "lit x = toNum x"

text \<open>
  The arithmetic operators: the exact result of two finite operands is rounded once; the
  other rows are the IEEE rules for infinities and \<open>NaN\<close>. Subtraction is addition of the
  negated operand.
\<close>

fun fneg :: "jsnum \<Rightarrow> jsnum" where
  "fneg (Fin a) = Fin (- a)"
| "fneg PosInf = NegInf"
| "fneg NegInf = PosInf"
| "fneg NaN = NaN"

fun fadd :: "jsnum \<Rightarrow> jsnum \<Rightarrow> jsnum" where
  "fadd (Fin a) (Fin b) = toNum (a + b)"
| "fadd (Fin a) PosInf = PosInf"
| "fadd (Fin a) NegInf = NegInf"
| "fadd PosInf (Fin b) = PosInf"
| "fadd NegInf (Fin b) = NegInf"
| "fadd PosInf PosInf = PosInf"
| "fadd NegInf NegInf = NegInf"
| "fadd a b = NaN"

definition fsub :: "jsnum \<Rightarrow> jsnum \<Rightarrow> jsnum" where
  "fsub a b = fadd a (fneg b)"

fun fmul :: "jsnum \<Rightarrow> jsnum \<Rightarrow> jsnum" where
  "fmul (Fin a) (Fin b) = toNum (a * b)"
| "fmul (Fin a) PosInf = (if a = 0 then NaN else if 0 < a then PosInf else NegInf)"
| "fmul (Fin a) NegInf = (if a = 0 then NaN else if 0 < a then NegInf else PosInf)"
| "fmul PosInf (Fin b) = (if b = 0 then NaN else if 0 < b then PosInf else NegInf)"
| "fmul NegInf (Fin b) = (if b = 0 then NaN else if 0 < b then NegInf else PosInf)"
| "fmul PosInf PosInf = PosInf"
| "fmul PosInf NegInf = NegInf"
| "fmul NegInf PosInf = NegInf"
| "fmul NegInf NegInf = PosInf"
| "fmul a b = NaN"

fun fdiv :: "jsnum \<Rightarrow> jsnum \<Rightarrow> jsnum" where
  "fdiv (Fin a) (Fin b) =
     (if b = 0 then (if a = 0 then NaN else if 0 < a then PosInf else NegInf)
      else toNum (a / b))"
| "fdiv (Fin a) PosInf = Fin 0"
| "fdiv (Fin a) NegInf = Fin 0"
| "fdiv PosInf (Fin b) = (if 0 \<le> b then PosInf else NegInf)"
| "fdiv NegInf (Fin b) = (if 0 \<le> b then NegInf else PosInf)"
| "fdiv a b = NaN"



text \<open>\<open>Math.min\<close>, \<open>Math.max\<close> and \<open>Math.round\<close> (the nearest integer, a tie going up). They
  are exact on doubles.\<close>

fun mathMin :: "jsnum \<Rightarrow> jsnum \<Rightarrow> jsnum" where
  "mathMin NaN b = NaN"
| "mathMin a NaN = NaN"
| "mathMin NegInf b = NegInf"
| "mathMin a NegInf = NegInf"
| "mathMin PosInf b = b"
| "mathMin a PosInf = a"
| "mathMin (Fin a) (Fin b) = Fin (min a b)"

fun mathMax :: "jsnum \<Rightarrow> jsnum \<Rightarrow> jsnum" where
  "mathMax NaN b = NaN"
| "mathMax a NaN = NaN"
| "mathMax PosInf b = PosInf"
| "mathMax a PosInf = PosInf"
| "mathMax NegInf b = b"
| "mathMax a NegInf = a"
| "mathMax (Fin a) (Fin b) = Fin (max a b)"

definition js_round :: "real \<Rightarrow> int" where
  "js_round v = \<lfloor>v + 1 / 2\<rfloor>"

fun mathRound :: "jsnum \<Rightarrow> jsnum" where
  "mathRound (Fin a) = Fin (of_int (js_round a))"
| "mathRound a = a"

text \<open>
  \<open>Math.log\<close>, \<open>Math.sqrt\<close> and \<open>Math.cos\<close> are the platform's: the language fixes their values
  at a few arguments and leaves the rest to the implementation, so they are parameters.
  \<open>Math.PI\<close> is the double nearest to the number pi.
\<close>

record MathLib =
  Math_log :: "jsnum \<Rightarrow> jsnum"
  Math_sqrt :: "jsnum \<Rightarrow> jsnum"
  Math_cos :: "jsnum \<Rightarrow> jsnum"

definition Math_PI :: jsnum where
  "Math_PI = Fin (884279719003555 / 2 ^ 48)"


section \<open>human-behavior.ts\<close>

text \<open>
  \<open>Math.random()\<close> is a stream \<open>rnd\<close> of samples read at a cursor \<open>k\<close>; every function returns
  the cursor after the draws it made. What a function does to the page is the list of
  input actions it performs, in order. The numbers handed to the page (waits, wheel
  amounts, pointer coordinates) are computed in binary64. The loop counts
  \<open>Math.floor(Math.random() * n)\<close> and the branch conditions \<open>Math.random() > c\<close> are
  computed on the exact sample: the product is not rounded before the floor.
\<close>

type_synonym rand = "nat \<Rightarrow> real"

type_synonym point = "jsnum \<times> jsnum"

datatype action =
    WaitForTimeout jsnum
  | MouseWheel jsnum jsnum
  | MouseMove jsnum jsnum

record HumanBehaviorOptions =
  pattern :: string
  minDelay :: real
  maxDelay :: real

text \<open>
  \<open>randomDelay\<close>. Line 19 is \<open>normalOf\<close>. As functions of the normal value, \<open>normalizedOf\<close> is
  line 22, \<open>clampedOf\<close> lines 22 and 23, and \<open>delayFromNormal\<close> lines 22 to 24. \<open>delayOf\<close> is
  lines 19 to 24 for the samples \<open>u1\<close> and \<open>u2\<close>.
\<close>

definition normalOf :: "MathLib \<Rightarrow> real \<Rightarrow> real \<Rightarrow> jsnum" where
  "normalOf math u1 u2 =
     fmul (Math_sqrt math (fmul (Fin (- 2)) (Math_log math (Fin u1))))
          (Math_cos math (fmul (fmul (Fin 2) Math_PI) (Fin u2)))"

definition normalizedOf :: "jsnum \<Rightarrow> jsnum" where
  "normalizedOf normal = fadd (fmul normal (lit (2 / 10))) (lit (5 / 10))"

definition clampedOf :: "jsnum \<Rightarrow> jsnum" where
  "clampedOf normal = mathMax (Fin 0) (mathMin (Fin 1) (normalizedOf normal))"

definition delayFromNormal :: "jsnum \<Rightarrow> jsnum \<Rightarrow> jsnum \<Rightarrow> jsnum" where
  "delayFromNormal mn mx normal = fadd mn (fmul (clampedOf normal) (fsub mx mn))"

definition delayOf :: "MathLib \<Rightarrow> jsnum \<Rightarrow> jsnum \<Rightarrow> real \<Rightarrow> real \<Rightarrow> jsnum" where
  "delayOf math mn mx u1 u2 = delayFromNormal mn mx (normalOf math u1 u2)"

definition randomDelay ::
  "MathLib \<Rightarrow> rand \<Rightarrow> nat \<Rightarrow> jsnum \<Rightarrow> jsnum \<Rightarrow> action list \<times> nat" where
  "randomDelay math rnd k mn mx =
     (let u1 = rnd k;
          u2 = rnd (k + 1);
          delay = delayOf math mn mx u1 u2
      in ([WaitForTimeout (mathRound delay)], k + 2))"

text \<open>\<open>humanScroll\<close>: the counting loop, then the occasional scroll back.\<close>

function scrollLoop :: "MathLib \<Rightarrow> rand \<Rightarrow> int \<Rightarrow> int \<Rightarrow> nat \<Rightarrow> action list \<times> nat" where
  "scrollLoop math rnd scrollCount i k =
     (if i < scrollCount then
        (let scrollAmount = fadd (fmul (Fin (rnd k)) (Fin 300)) (Fin 100);
             (d, k1) = randomDelay math rnd (k + 1) (Fin 300) (Fin 800);
             (rest, k2) = scrollLoop math rnd scrollCount (i + 1) k1
         in (MouseWheel (Fin 0) scrollAmount # d @ rest, k2))
      else ([], k))"
  by pat_completeness auto
termination
  by (relation "measure (\<lambda>(math, rnd, scrollCount, i, k). nat (scrollCount - i))") auto

declare scrollLoop.simps [simp del]

definition humanScroll :: "MathLib \<Rightarrow> rand \<Rightarrow> nat \<Rightarrow> action list \<times> nat" where
  "humanScroll math rnd k =
     (let scrollCount = \<lfloor>rnd k * 3\<rfloor> + 2;
          (scrolls, k1) = scrollLoop math rnd scrollCount 0 (k + 1)
      in if rnd k1 > 0.7 then
           (let scrollBack = fneg (fadd (fmul (Fin (rnd (k1 + 1))) (Fin 100)) (Fin 50));
                (d, k2) = randomDelay math rnd (k1 + 2) (Fin 200) (Fin 500)
            in (scrolls @ MouseWheel (Fin 0) scrollBack # d, k2))
         else (scrolls, k1 + 1))"

text \<open>\<open>cubicBezier\<close> and \<open>generateBezierPoints\<close>. A curve is its four control values in x and
  its four in y. Every product and every sum of line 105 is rounded, in the order in which
  JavaScript evaluates them.\<close>

definition cubicBezier :: "jsnum \<Rightarrow> jsnum \<Rightarrow> jsnum \<Rightarrow> jsnum \<Rightarrow> jsnum \<Rightarrow> jsnum" where
  "cubicBezier t p0 p1 p2 p3 =
     (let t2 = fmul t t;
          t3 = fmul t2 t;
          mt = fsub (Fin 1) t;
          mt2 = fmul mt mt;
          mt3 = fmul mt2 mt
      in fadd (fadd (fadd (fmul mt3 p0)
                          (fmul (fmul (fmul (Fin 3) mt2) t) p1))
                    (fmul (fmul (fmul (Fin 3) mt) t2) p2))
              (fmul t3 p3))"

type_synonym curve = "(jsnum \<times> jsnum \<times> jsnum \<times> jsnum) \<times> (jsnum \<times> jsnum \<times> jsnum \<times> jsnum)"

text \<open>The body of the sampling loop at index \<open>i\<close>. With \<open>steps = 0\<close> the parameter \<open>0 / 0\<close> is
  \<open>NaN\<close>, and so are both coordinates.\<close>

definition samplePoint :: "curve \<Rightarrow> int \<Rightarrow> int \<Rightarrow> point" where
  "samplePoint c steps i =
     (case c of ((startX, cp1x, cp2x, endX), (startY, cp1y, cp2y, endY)) \<Rightarrow>
        (let t = fdiv (Fin (of_int i)) (Fin (of_int steps));
             px = cubicBezier t startX cp1x cp2x endX;
             py = cubicBezier t startY cp1y cp2y endY
         in (mathRound px, mathRound py)))"

function bezierLoop :: "curve \<Rightarrow> int \<Rightarrow> int \<Rightarrow> point list" where
  "bezierLoop c steps i =
     (if i \<le> steps then samplePoint c steps i # bezierLoop c steps (i + 1) else [])"
  by pat_completeness auto
termination
  by (relation "measure (\<lambda>(c, steps, i). nat (steps + 1 - i))") auto

declare bezierLoop.simps [simp del]

definition controlPoints :: "rand \<Rightarrow> nat \<Rightarrow> jsnum \<Rightarrow> jsnum \<Rightarrow> jsnum \<Rightarrow> jsnum \<Rightarrow> curve" where
  "controlPoints rnd k startX startY endX endY =
     (let cp1x = fadd (fadd startX (fmul (fsub endX startX) (lit (3 / 10))))
                      (fmul (fsub (Fin (rnd k)) (lit (5 / 10))) (Fin 100));
          cp1y = fadd (fadd startY (fmul (fsub endY startY) (lit (1 / 10))))
                      (fmul (fsub (Fin (rnd (k + 1))) (lit (5 / 10))) (Fin 100));
          cp2x = fadd (fadd startX (fmul (fsub endX startX) (lit (7 / 10))))
                      (fmul (fsub (Fin (rnd (k + 2))) (lit (5 / 10))) (Fin 100));
          cp2y = fadd (fadd startY (fmul (fsub endY startY) (lit (9 / 10))))
                      (fmul (fsub (Fin (rnd (k + 3))) (lit (5 / 10))) (Fin 100))
      in ((startX, cp1x, cp2x, endX), (startY, cp1y, cp2y, endY)))"

definition generateBezierPoints ::
  "rand \<Rightarrow> nat \<Rightarrow> jsnum \<Rightarrow> jsnum \<Rightarrow> jsnum \<Rightarrow> jsnum \<Rightarrow> int \<Rightarrow> point list \<times> nat" where
  "generateBezierPoints rnd k startX startY endX endY steps =
     (bezierLoop (controlPoints rnd k startX startY endX endY) steps 0, k + 4)"

text \<open>\<open>humanMouseMove\<close>: one move and one short pause per sampled point.\<close>

fun moveLoop :: "rand \<Rightarrow> nat \<Rightarrow> point list \<Rightarrow> action list \<times> nat" where
  "moveLoop rnd k [] = ([], k)"
| "moveLoop rnd k (p # ps) =
     (let (rest, k1) = moveLoop rnd (k + 1) ps
      in (MouseMove (fst p) (snd p)
            # WaitForTimeout (fadd (fmul (Fin (rnd k)) (Fin 30)) (Fin 10)) # rest, k1))"

definition stepsOf :: "real \<Rightarrow> int" where
  "stepsOf r = \<lfloor>r * 20\<rfloor> + 10"

definition humanMouseMove ::
  "rand \<Rightarrow> nat \<Rightarrow> Page \<Rightarrow> jsnum \<Rightarrow> jsnum \<Rightarrow> action list \<times> nat" where
  "humanMouseMove rnd k page targetX targetY =
     (case viewportSize page of
        None \<Rightarrow> ([], k)
      | Some (width, height) \<Rightarrow>
          (let startX = fmul (fmul (Fin (rnd k)) (Fin width)) (lit (5 / 10));
               startY = fmul (fmul (Fin (rnd (k + 1))) (Fin height)) (lit (5 / 10));
               steps = stepsOf (rnd (k + 2));
               (points, k1) = generateBezierPoints rnd (k + 3) startX startY targetX targetY steps
           in moveLoop rnd k1 points))"

text \<open>
  \<open>applyHumanBehavior\<close>. The pattern is the string the configuration holds at run time. The
  last part of pattern C is \<open>hoverRandomLink\<close>; indexing \<open>links\<close> out of range yields
  \<open>undefined\<close>, whose \<open>boundingBox\<close> call throws.
\<close>

definition hoverRandomLink ::
  "MathLib \<Rightarrow> rand \<Rightarrow> nat \<Rightarrow> Page \<Rightarrow> jsError + (action list \<times> nat)" where
  "hoverRandomLink math rnd k page =
     (if rnd k > 0.5 then
        (if length (links page) > 0 then
           (let idx = \<lfloor>rnd (k + 1) * of_nat (length (links page))\<rfloor>
            in if 0 \<le> idx \<and> idx < int (length (links page)) then
                 (case links page ! nat idx of
                    None \<Rightarrow> Inr ([], k + 2)
                  | Some (boxX, boxY, boxW, boxH) \<Rightarrow>
                      (let (mv, k1) = humanMouseMove rnd (k + 2) page
                                        (fadd (Fin boxX) (fdiv (Fin boxW) (Fin 2)))
                                        (fadd (Fin boxY) (fdiv (Fin boxH) (Fin 2)));
                           (d, k2) = randomDelay math rnd k1 (Fin 200) (Fin 500)
                       in Inr (mv @ d, k2)))
               else Inl (TypeError ''Cannot read properties of undefined (reading boundingBox)''))
         else Inr ([], k + 1))
      else Inr ([], k + 1))"

definition applyHumanBehavior ::
  "MathLib \<Rightarrow> rand \<Rightarrow> nat \<Rightarrow> Page \<Rightarrow> HumanBehaviorOptions \<Rightarrow> jsError + (action list \<times> nat)" where
  "applyHumanBehavior math rnd k page options =
     (if pattern options = ''A'' then Inr ([WaitForTimeout (Fin 2000)], k)
      else if pattern options = ''B'' then
        (let (d1, k1) = randomDelay math rnd k (Fin (minDelay options)) (Fin (maxDelay options));
             (sc, k2) = humanScroll math rnd k1;
             (d2, k3) = randomDelay math rnd k2 (Fin 500) (Fin 1500)
         in Inr (d1 @ sc @ d2, k3))
      else if pattern options = ''C'' then
        (let (d1, k1) = randomDelay math rnd k (Fin (minDelay options)) (Fin (maxDelay options));
             (mv, k2) = (case viewportSize page of
                           None \<Rightarrow> ([], k1)
                         | Some (width, height) \<Rightarrow>
                             (let targetX = fadd (fmul (fmul (Fin (rnd k1)) (Fin width)) (lit (8 / 10)))
                                                 (fmul (Fin width) (lit (1 / 10)));
                                  targetY = fadd (fmul (fmul (Fin (rnd (k1 + 1))) (Fin height)) (lit (8 / 10)))
                                                 (fmul (Fin height) (lit (1 / 10)))
                              in humanMouseMove rnd (k1 + 2) page targetX targetY));
             (sc, k3) = humanScroll math rnd k2;
             (d2, k4) = randomDelay math rnd k3 (Fin 1000) (Fin 3000)
         in case hoverRandomLink math rnd k4 page of
              Inl e \<Rightarrow> Inl e
            | Inr (hv, k5) \<Rightarrow> Inr (d1 @ mv @ sc @ d2 @ hv, k5))
      else Inr ([], k))"


section \<open>Configuration and the base scraper\<close>

text \<open>
  The part of \<open>ScraperConfig\<close> that \<open>navigate\<close> reads. \<open>loadConfig\<close> builds it from the
  process environment; \<open>a || b\<close> on strings takes \<open>b\<close> when \<open>a\<close> is undefined or empty, and the
  pattern is whatever string the environment holds (the \<open>as\<close> cast checks nothing at run
  time). The platform's \<open>parseInt\<close> is a parameter. \<open>loadConfig\<close> has no statement that
  throws.
\<close>

record ScraperConfig =
  humanBehaviorEnabled :: bool
  humanBehavior :: HumanBehaviorOptions
  loggingEnabled :: bool

definition orElse :: "string option \<Rightarrow> string \<Rightarrow> string" where
  "orElse v d = (case v of None \<Rightarrow> d | Some s \<Rightarrow> if s = [] then d else s)"

definition loadConfig :: "(string \<Rightarrow> real) \<Rightarrow> (string \<rightharpoonup> string) \<Rightarrow> ScraperConfig" where
  "loadConfig parseInt env =
     \<lparr>humanBehaviorEnabled = (env ''HUMAN_BEHAVIOR_ENABLED'' \<noteq> Some ''false''),
      humanBehavior =
        \<lparr>pattern = orElse (env ''HUMAN_BEHAVIOR_PATTERN'') ''B'',
         minDelay = parseInt (orElse (env ''MIN_DELAY'') ''1000''),
         maxDelay = parseInt (orElse (env ''MAX_DELAY'') ''5000'')\<rparr>,
      loggingEnabled = (env ''LOGGING_ENABLED'' \<noteq> Some ''false'')\<rparr>"

text \<open>
  \<open>BaseScraper\<close>: whether \<open>this.page\<close> is set, the configuration and the two session counters.
  The constructor starts both counters at 0 with no page; \<open>initialize\<close> launches the browser
  (the launch may fail: \<open>Some\<close> message) and opens the page. The request counter is a
  natural number: counts stay far below \<open>2^53\<close>, where a JavaScript number is an exact integer.
\<close>

record BaseScraper =
  hasPage :: bool
  config :: ScraperConfig
  requestCount :: nat
  lastRequestTime :: int

definition newScraper :: "ScraperConfig \<Rightarrow> BaseScraper" where
  "newScraper cfg = \<lparr>hasPage = False, config = cfg, requestCount = 0, lastRequestTime = 0\<rparr>"

definition initialize :: "string option \<Rightarrow> BaseScraper \<Rightarrow> jsError option \<times> BaseScraper" where
  "initialize launchFailure scraper =
     (case launchFailure of
        Some m \<Rightarrow> (Some (Error m), scraper)
      | None \<Rightarrow> (None, scraper\<lparr>hasPage := True\<rparr>))"

record ScrapeResult =
  success :: bool
  banSignals :: BanSignals
  error :: "string option"

text \<open>
  What the outside world contributes to one call of \<open>navigate\<close>: whether \<open>page.goto\<close> rejects
  (\<open>Some\<close> message), the page as it stands afterwards, the response statuses seen by the
  monitor in order, the readings of \<open>Date.now()\<close> at the start, inside the detector, after
  the visit and in the \<open>catch\<close> block, the random samples drawn by the behaviour and the
  platform's \<open>Math\<close> functions. Calls to the logger change neither the result nor the
  scraper and are left out.
\<close>

record Visit =
  gotoFailure :: "string option"
  loadedPage :: Page
  responses :: "int list"
  startNow :: int
  detectNow :: int
  doneNow :: int
  failNow :: int
  samples :: rand
  mathLib :: MathLib

text \<open>
  The \<open>try\<close> block of \<open>navigate\<close>: \<open>Inl\<close> is an exception on its way to the \<open>catch\<close>. Every
  statement that can throw stands before the counter update, so an exception leaves the
  counters as they were.
\<close>

definition navigateTry ::
  "(string \<Rightarrow> string option) \<Rightarrow> Visit \<Rightarrow> string \<Rightarrow> BaseScraper \<Rightarrow> jsError + (ScrapeResult \<times> BaseScraper)" where
  "navigateTry hostname visit targetUrl scraper =
     (case gotoFailure visit of
        Some m \<Rightarrow> Inl (Error m)
      | None \<Rightarrow>
          (case (if humanBehaviorEnabled (config scraper)
                 then applyHumanBehavior (mathLib visit) (samples visit) 0 (loadedPage visit)
                        (humanBehavior (config scraper))
                 else Inr ([], 0)) of
             Inl e \<Rightarrow> Inl e
           | Inr performed \<Rightarrow>
               (case detectBanSignals hostname (loadedPage visit) (detectNow visit) (startNow visit) targetUrl of
                  Inl e \<Rightarrow> Inl e
                | Inr detected \<Rightarrow>
                    (let signals = detected\<lparr>httpError :=
                                      getHttpError (observeResponses setupResponseMonitor (responses visit))\<rparr>;
                         scraper1 = scraper\<lparr>requestCount := requestCount scraper + 1,
                                            lastRequestTime := doneNow visit\<rparr>
                     in if isBanned signals
                        then Inr (\<lparr>success = False, banSignals = signals,
                                   error = Some (''BAN detected: '' @ nullableToString (getBanReason signals))\<rparr>,
                                  scraper1)
                        else Inr (\<lparr>success = True, banSignals = signals, error = None\<rparr>, scraper1)))))"

text \<open>\<open>navigate\<close>: the result is the thrown error or the returned \<open>ScrapeResult\<close>, with the
  scraper as the call leaves it.\<close>

definition navigate ::
  "(string \<Rightarrow> string option) \<Rightarrow> Visit \<Rightarrow> string \<Rightarrow> BaseScraper \<Rightarrow> (jsError + ScrapeResult) \<times> BaseScraper" where
  "navigate hostname visit targetUrl scraper =
     (if \<not> hasPage scraper then (Inl (Error ''Page not initialized''), scraper)
      else
        (case navigateTry hostname visit targetUrl scraper of
           Inr (result, scraper1) \<Rightarrow> (Inr result, scraper1)
         | Inl e \<Rightarrow>
             (Inr \<lparr>success = False,
                   banSignals = \<lparr>captchaDetected = False, httpError = None, unexpectedRedirect = False,
                                  contentMissing = True, jsChallenge = False,
                                  responseTimeMs = failNow visit - startNow visit, blockedUrl = None\<rparr>,
                   error = Some (message e)\<rparr>,
              scraper)))"


section \<open>The reason priority, as the specification words it\<close>

text \<open>
  The specification orders the four ban channels CAPTCHA, HTTP error, JS challenge,
  redirect, and reports the first one that is triggered. \<open>highestPriorityReason\<close> follows
  those words; it is compared with \<open>getBanReason\<close> below.
\<close>

datatype channel = Captcha | HttpError | JsChallenge | Redirect

definition reasonPriority :: "channel list" where
  "reasonPriority = [Captcha, HttpError, JsChallenge, Redirect]"

fun triggered :: "BanSignals \<Rightarrow> channel \<Rightarrow> bool" where
  "triggered s Captcha = captchaDetected s"
| "triggered s HttpError = (httpError s \<noteq> None)"
| "triggered s JsChallenge = jsChallenge s"
| "triggered s Redirect = unexpectedRedirect s"

fun reasonOf :: "BanSignals \<Rightarrow> channel \<Rightarrow> string" where
  "reasonOf s Captcha = ''CAPTCHA''"
| "reasonOf s HttpError = ''HTTP '' @ numberToString (the (httpError s))"
| "reasonOf s JsChallenge = ''JS Challenge''"
| "reasonOf s Redirect = ''Redirect to '' @ nullableToString (blockedUrl s)"

definition highestPriorityReason :: "BanSignals \<Rightarrow> string option" where
  "highestPriorityReason s = map_option (reasonOf s) (find (triggered s) reasonPriority)"

section \<open>Notions used in the statements\<close>

text \<open>The evidence of the scenario: HTTP status 403 and every other channel off.\<close>

definition http403Evidence :: BanSignals where
  "http403Evidence =
     \<lparr>captchaDetected = False, httpError = Some 403, unexpectedRedirect = False,
      contentMissing = False, jsChallenge = False, responseTimeMs = 0, blockedUrl = None\<rparr>"

text \<open>Counting the actions of a behaviour by kind; a forward scroll has a positive vertical
  amount, a reverse scroll a negative one.\<close>

fun isMove :: "action \<Rightarrow> bool" where
  "isMove (MouseMove px py) = True"
| "isMove a = False"



fun isScroll :: "action \<Rightarrow> bool" where
  "isScroll (MouseWheel dx dy) = True"
| "isScroll a = False"

text \<open>A page with nothing on it, at a plain URL, with the viewport the scraper's context
  sets (1920 by 1080) or with none.\<close>

definition blankPage :: "(real \<times> real) option \<Rightarrow> Page" where
  "blankPage vp =
     \<lparr>query = (\<lambda>selector. False), content = ''<html></html>'',
      url = ''https://jp.mercari.com/item/m1'', viewportSize = vp, links = []\<rparr>"

text \<open>
  A platform for the concrete runs: \<open>Math.log\<close>, \<open>Math.sqrt\<close> and \<open>Math.cos\<close> correctly
  rounded, with the values the language fixes at zero, at the infinities and at \<open>NaN\<close>.
\<close>

fun idealLog :: "jsnum \<Rightarrow> jsnum" where
  "idealLog (Fin v) = (if v = 0 then NegInf else if v < 0 then NaN else toNum (ln v))"
| "idealLog PosInf = PosInf"
| "idealLog a = NaN"

fun idealSqrt :: "jsnum \<Rightarrow> jsnum" where
  "idealSqrt (Fin v) = (if v < 0 then NaN else toNum (sqrt v))"
| "idealSqrt PosInf = PosInf"
| "idealSqrt a = NaN"

fun idealCos :: "jsnum \<Rightarrow> jsnum" where
  "idealCos (Fin v) = toNum (cos v)"
| "idealCos a = NaN"

definition idealMath :: MathLib where
  "idealMath = \<lparr>Math_log = idealLog, Math_sqrt = idealSqrt, Math_cos = idealCos\<rparr>"







definition constantSamples :: "real \<Rightarrow> rand" where
  "constantSamples c = (\<lambda>i. c)"

definition performed :: "jsError + (action list \<times> nat) \<Rightarrow> action list" where
  "performed r = (case r of Inl e \<Rightarrow> [] | Inr (acts, k) \<Rightarrow> acts)"

text \<open>
  Concrete surroundings for the scraper: \<open>parseInt\<close> on a string of decimal digits, an
  environment that sets only the behaviour pattern, the configuration loaded from an empty
  environment, a scraper set up with it, a visit that loads a blank page with one response
  of status 200, and the same visit with \<open>page.goto\<close> failing at the transport level.
\<close>

definition digitValue :: "char \<Rightarrow> nat" where
  "digitValue c = of_char c - 48"

definition parseDigits :: "string \<Rightarrow> real" where
  "parseDigits s = of_nat (foldl (\<lambda>n c. 10 * n + digitValue c) 0 s)"

definition patternEnv :: "string \<Rightarrow> (string \<rightharpoonup> string)" where
  "patternEnv p = [''HUMAN_BEHAVIOR_PATTERN'' \<mapsto> p]"

definition defaultConfig :: ScraperConfig where
  "defaultConfig = loadConfig parseDigits Map.empty"

definition readyScraper :: BaseScraper where
  "readyScraper = snd (initialize None (newScraper defaultConfig))"

definition okVisit :: Visit where
  "okVisit =
     \<lparr>gotoFailure = None, loadedPage = blankPage (Some (1920, 1080)), responses = [200],
      startNow = 100, detectNow = 150, doneNow = 160, failNow = 0,
      samples = constantSamples (1 / 2), mathLib = idealMath\<rparr>"

definition refusedVisit :: Visit where
  "refusedVisit = okVisit\<lparr>gotoFailure := Some ''net::ERR_CONNECTION_REFUSED'', failNow := 130\<rparr>"

section \<open>Properties of the verdict\<close>

text \<open>
  C1. For every BanSignals record, \<open>isBanned\<close> is true exactly when at least one of
  \<open>captchaDetected\<close>, \<open>httpError\<close> being set (non-null), \<open>jsChallenge\<close> or
  \<open>unexpectedRedirect\<close> holds. The \<open>contentMissing\<close> field has no influence on the verdict:
  changing it never changes \<open>isBanned\<close>, and a record whose four ban channels are all off is
  not banned whatever \<open>contentMissing\<close> (and the remaining fields) say.
\<close>

theorem isBanned_is_or_of_four_channels:
  "isBanned s =
     (captchaDetected s \<or> httpError s \<noteq> None \<or> jsChallenge s \<or> unexpectedRedirect s)
   \<and> isBanned (s\<lparr>contentMissing := cm\<rparr>) = isBanned s
   \<and> isBanned \<lparr>captchaDetected = False, httpError = None, unexpectedRedirect = False,
         contentMissing = cm, jsChallenge = False, responseTimeMs = t, blockedUrl = b\<rparr> = False"
  by (auto simp: isBanned_def)

theorem isBanned_channels_witness:
  "isBanned \<lparr>captchaDetected = False, httpError = Some 403, unexpectedRedirect = False,
       contentMissing = False, jsChallenge = False, responseTimeMs = 120, blockedUrl = None\<rparr>
   \<and> isBanned \<lparr>captchaDetected = False, httpError = None, unexpectedRedirect = False,
       contentMissing = True, jsChallenge = False, responseTimeMs = 120, blockedUrl = None\<rparr> = False"
  using isBanned_is_or_of_four_channels
    [of "\<lparr>captchaDetected = False, httpError = Some 403, unexpectedRedirect = False,
       contentMissing = False, jsChallenge = False, responseTimeMs = 120, blockedUrl = None\<rparr>"
       True 120 None]
  by simp

text \<open>
  C10. For every BanSignals record, \<open>getBanReason\<close> returns \<open>null\<close> if and only if
  \<open>isBanned\<close> returns false: every banned verdict carries a reason string and every
  non-banned verdict carries none.
\<close>

theorem getBanReason_null_iff_not_banned:
  "(getBanReason s = None) = (\<not> isBanned s)"
  by (simp add: getBanReason_def isBanned_def)

theorem getBanReason_null_witness:
  "getBanReason \<lparr>captchaDetected = False, httpError = None, unexpectedRedirect = False,
       contentMissing = True, jsChallenge = False, responseTimeMs = 120, blockedUrl = None\<rparr> = None
   \<and> getBanReason \<lparr>captchaDetected = True, httpError = None, unexpectedRedirect = False,
       contentMissing = False, jsChallenge = False, responseTimeMs = 120, blockedUrl = None\<rparr> \<noteq> None"
  using getBanReason_null_iff_not_banned
    [of "\<lparr>captchaDetected = False, httpError = None, unexpectedRedirect = False,
       contentMissing = True, jsChallenge = False, responseTimeMs = 120, blockedUrl = None\<rparr>"]
    getBanReason_null_iff_not_banned
    [of "\<lparr>captchaDetected = True, httpError = None, unexpectedRedirect = False,
       contentMissing = False, jsChallenge = False, responseTimeMs = 120, blockedUrl = None\<rparr>"]
  by (simp add: isBanned_def)

text \<open>
  C6. As claimed, the reason follows the fixed priority CAPTCHA, HTTP error, JS challenge,
  redirect, and the evidence with \<open>httpError = 403\<close> and every other channel off is banned;
  but the reason string the code returns for it is \<open>HTTP 403\<close> (the status is part of the
  text), not \<open>HTTP error\<close>.
\<close>

theorem getBanReason_http403_counterexample:
  "isBanned http403Evidence
   \<and> getBanReason http403Evidence = Some ''HTTP 403''
   \<and> getBanReason http403Evidence \<noteq> Some ''HTTP error''"
  by (simp add: isBanned_def getBanReason_def http403Evidence_def numberToString_def
      digitsOf.simps digitChar_def)

text \<open>
  C6, amended. For every BanSignals record in which \<open>isBanned\<close> is true, \<open>getBanReason\<close>
  returns the reason of the first triggered channel in the order CAPTCHA, HTTP error,
  JS challenge, redirect (it agrees with \<open>highestPriorityReason\<close>); for the evidence with
  \<open>httpError = 403\<close> and every other channel off the verdict is banned with the reason
  \<open>HTTP 403\<close>.
\<close>

theorem getBanReason_follows_priority:
  "(isBanned s \<longrightarrow>
      (\<exists>c. find (triggered s) reasonPriority = Some c \<and> getBanReason s = Some (reasonOf s c))
      \<and> getBanReason s = highestPriorityReason s)
   \<and> isBanned http403Evidence
   \<and> getBanReason http403Evidence = Some ''HTTP 403''"
  by (auto simp: isBanned_def getBanReason_def highestPriorityReason_def reasonPriority_def
      http403Evidence_def numberToString_def digitsOf.simps digitChar_def)

theorem getBanReason_priority_witness:
  "isBanned \<lparr>captchaDetected = True, httpError = Some 429, unexpectedRedirect = True,
       contentMissing = False, jsChallenge = True, responseTimeMs = 5, blockedUrl = None\<rparr>
   \<and> getBanReason \<lparr>captchaDetected = True, httpError = Some 429, unexpectedRedirect = True,
       contentMissing = False, jsChallenge = True, responseTimeMs = 5, blockedUrl = None\<rparr>
     = Some ''CAPTCHA''"
  using getBanReason_follows_priority
    [of "\<lparr>captchaDetected = True, httpError = Some 429, unexpectedRedirect = True,
       contentMissing = False, jsChallenge = True, responseTimeMs = 5, blockedUrl = None\<rparr>"]
  by (simp add: isBanned_def highestPriorityReason_def reasonPriority_def)


section \<open>Properties of the response monitor\<close>

lemma observeResponses_last:
  "observeResponses acc rs =
     (if filter (\<lambda>st. st \<in> set blockingStatuses) rs = [] then acc
      else Some (last (filter (\<lambda>st. st \<in> set blockingStatuses) rs)))"
  by (induction rs arbitrary: acc) (auto simp: onResponse_def)

text \<open>
  C2. The claim says the monitor reports the first blocking status of the visit. The
  handler overwrites \<open>lastHttpError\<close> at every blocking response, so after 403 and then 429
  the monitor reports 429, although 403 was observed first.
\<close>

theorem monitor_first_blocking_counterexample:
  "find (\<lambda>st. st \<in> set blockingStatuses) [403, 429] = Some 403
   \<and> getHttpError (observeResponses setupResponseMonitor [403, 429]) = Some 429
   \<and> getHttpError (observeResponses setupResponseMonitor [403, 429]) \<noteq> Some 403"
  by (simp add: blockingStatuses_def getHttpError_def setupResponseMonitor_def onResponse_def)

text \<open>
  C2, amended. For every visit during which at least one response status in the blocking
  set 403, 429, 503, 520, 521, 522, 523, 524 is observed, the response monitor reports as
  \<open>httpError\<close> the last such blocking status in chronological order of observation.
\<close>

theorem monitor_reports_last_blocking_status:
  assumes "\<exists>st \<in> set rs. st \<in> set blockingStatuses"
  shows "getHttpError (observeResponses setupResponseMonitor rs) =
           Some (last (filter (\<lambda>st. st \<in> set blockingStatuses) rs))"
proof -
  from assms have "filter (\<lambda>st. st \<in> set blockingStatuses) rs \<noteq> []"
    by (auto simp: filter_empty_conv)
  then show ?thesis
    by (simp add: getHttpError_def observeResponses_last)
qed

theorem monitor_reports_last_witness:
  "(\<exists>st \<in> set [200, 403, 200, 429, 304]. st \<in> set blockingStatuses)
   \<and> getHttpError (observeResponses setupResponseMonitor [200, 403, 200, 429, 304]) = Some 429"
proof -
  have h: "\<exists>st \<in> set [200, 403, 200, 429, 304 :: int]. st \<in> set blockingStatuses"
    by (simp add: blockingStatuses_def)
  from monitor_reports_last_blocking_status [OF h] h show ?thesis
    by (simp add: blockingStatuses_def)
qed


section \<open>Properties of the detector\<close>

lemma checkCaptcha_fields:
  "captchaDetected (checkCaptcha page sels s) = (captchaDetected s \<or> (\<exists>sel \<in> set sels. query page sel))"
  "httpError (checkCaptcha page sels s) = httpError s"
  "unexpectedRedirect (checkCaptcha page sels s) = unexpectedRedirect s"
  "contentMissing (checkCaptcha page sels s) = contentMissing s"
  "jsChallenge (checkCaptcha page sels s) = jsChallenge s"
  "responseTimeMs (checkCaptcha page sels s) = responseTimeMs s"
  "blockedUrl (checkCaptcha page sels s) = blockedUrl s"
  by (induction sels) auto

lemma checkJsChallenge_fields:
  "jsChallenge (checkJsChallenge txt inds s) = (jsChallenge s \<or> (\<exists>ind \<in> set inds. str_includes txt ind))"
  "httpError (checkJsChallenge txt inds s) = httpError s"
  "unexpectedRedirect (checkJsChallenge txt inds s) = unexpectedRedirect s"
  "contentMissing (checkJsChallenge txt inds s) = contentMissing s"
  "captchaDetected (checkJsChallenge txt inds s) = captchaDetected s"
  "responseTimeMs (checkJsChallenge txt inds s) = responseTimeMs s"
  "blockedUrl (checkJsChallenge txt inds s) = blockedUrl s"
  by (induction inds) auto

lemma checkBlockPage_fields:
  "unexpectedRedirect (checkBlockPage u pats s) = (unexpectedRedirect s \<or> (\<exists>pat \<in> set pats. str_includes u pat))"
  "httpError (checkBlockPage u pats s) = httpError s"
  "jsChallenge (checkBlockPage u pats s) = jsChallenge s"
  "contentMissing (checkBlockPage u pats s) = contentMissing s"
  "captchaDetected (checkBlockPage u pats s) = captchaDetected s"
  "responseTimeMs (checkBlockPage u pats s) = responseTimeMs s"
  "blockedUrl (checkBlockPage u pats s) = (if \<exists>pat \<in> set pats. str_includes u pat then Some u else blockedUrl s)"
  by (induction pats) auto

lemma plainHostname_mercari: "plainHostname ''https://jp.mercari.com/item/m1'' = Some ''jp.mercari.com''"
  by (simp add: plainHostname_def)

lemma plainHostname_malformed: "plainHostname ''not a url'' = None"
  by (simp add: plainHostname_def)

text \<open>
  C3. The claim says \<open>detectBanSignals\<close> never throws, a malformed URL only leaving the
  domain check untriggered. The two \<open>new URL(...)\<close> calls stand outside any \<open>try\<close>: on an
  expected URL that does not parse, the constructor's \<open>TypeError\<close> leaves the function and no
  record is returned.
\<close>

theorem detectBanSignals_throws_counterexample:
  "detectBanSignals plainHostname (blankPage None) 150 100 ''not a url'' = Inl (TypeError ''Invalid URL'')"
  by (simp add: detectBanSignals_def plainHostname_malformed)

text \<open>
  C3, amended. For every page state, \<open>detectBanSignals\<close> returns a fully populated
  BanSignals record whenever the expected URL and the current URL both parse: a selector
  or phrase that is not found leaves its channel untriggered, \<open>captchaDetected\<close>,
  \<open>jsChallenge\<close> and \<open>unexpectedRedirect\<close> report exactly their channels, \<open>httpError\<close> is
  \<open>null\<close>, \<open>contentMissing\<close> is false and \<open>responseTimeMs\<close> is the elapsed time. When either
  URL fails to parse, the \<open>TypeError\<close> of the URL constructor propagates out of
  \<open>detectBanSignals\<close>.
\<close>

theorem detectBanSignals_total_on_parsable_urls:
  "(hostname expectedUrl = Some expectedDomain \<and> hostname (url page) = Some currentDomain \<longrightarrow>
      (\<exists>signals. detectBanSignals hostname page now startTime expectedUrl = Inr signals
         \<and> captchaDetected signals = (\<exists>sel \<in> set CAPTCHA_SELECTORS. query page sel)
         \<and> jsChallenge signals = (\<exists>ind \<in> set JS_CHALLENGE_INDICATORS. str_includes (content page) ind)
         \<and> unexpectedRedirect signals =
             ((\<exists>pat \<in> set BLOCK_PAGE_PATTERNS. str_includes (url page) pat)
              \<or> (expectedDomain \<noteq> currentDomain \<and> \<not> str_includes currentDomain expectedDomain))
         \<and> blockedUrl signals = (if unexpectedRedirect signals then Some (url page) else None)
         \<and> httpError signals = None
         \<and> contentMissing signals = False
         \<and> responseTimeMs signals = now - startTime))
   \<and> (hostname expectedUrl = None \<or> hostname (url page) = None \<longrightarrow>
        detectBanSignals hostname page now startTime expectedUrl = Inl (TypeError ''Invalid URL''))"
  by (auto simp: detectBanSignals_def Let_def checkCaptcha_fields checkJsChallenge_fields
      checkBlockPage_fields split: option.splits)

theorem detectBanSignals_witness:
  "(\<exists>signals. detectBanSignals plainHostname (blankPage None) 150 100 ''https://jp.mercari.com/item/m1'' = Inr signals
       \<and> unexpectedRedirect signals = False \<and> responseTimeMs signals = 50)
   \<and> detectBanSignals plainHostname (blankPage None) 150 100 ''not a url'' = Inl (TypeError ''Invalid URL'')"
  using detectBanSignals_total_on_parsable_urls
      [of plainHostname "''https://jp.mercari.com/item/m1''" "''jp.mercari.com''" "blankPage None"
          "''jp.mercari.com''" 150 100]
    detectBanSignals_total_on_parsable_urls
      [of plainHostname "''not a url''" "''jp.mercari.com''" "blankPage None" "''jp.mercari.com''" 150 100]
  by (auto simp: plainHostname_mercari plainHostname_malformed blankPage_def BLOCK_PAGE_PATTERNS_def)


section \<open>Properties of the rounding\<close>

text \<open>
  The exponent scan finds the binade; rounding moves a value by at most half a unit in the
  last place; it leaves the doubles fixed and never crosses one, so a bound that is a double
  survives the rounding of a sum or a product.
\<close>

lemma expoUp_spec:
  "e \<le> expoUp n e a \<and> expoUp n e a \<le> e + int n
   \<and> (2 powi e \<le> a \<longrightarrow> 2 powi (expoUp n e a) \<le> a)
   \<and> (expoUp n e a < e + int n \<longrightarrow> a < 2 powi (expoUp n e a + 1))"
proof (induction n arbitrary: e)
  case 0
  then show ?case by simp
next
  case (Suc n)
  show ?case
  proof (cases "2 powi (e + 1) \<le> a")
    case True
    with Suc[of "e + 1"] show ?thesis by auto
  next
    case False
    then show ?thesis by auto
  qed
qed

lemma expoDown_spec:
  "expoDown n e a \<le> e \<and> e - int n \<le> expoDown n e a
   \<and> (a < 2 powi (e + 1) \<longrightarrow> a < 2 powi (expoDown n e a + 1))
   \<and> (e - int n < expoDown n e a \<longrightarrow> 2 powi (expoDown n e a) \<le> a)"
proof (induction n arbitrary: e)
  case 0
  then show ?case by simp
next
  case (Suc n)
  show ?case
  proof (cases "a < 2 powi e")
    case True
    with Suc[of "e - 1"] show ?thesis by auto
  next
    case False
    then show ?thesis by auto
  qed
qed


lemma expo_upper:
  assumes "\<bar>x\<bar> < 2 ^ 1024"
  shows "\<bar>x\<bar> < 2 powi (expo x + 1)"
proof (cases "1 \<le> \<bar>x\<bar>")
  case True
  let ?e = "expoUp 1024 0 \<bar>x\<bar>"
  have s: "2 powi ?e \<le> \<bar>x\<bar>" "?e < 0 + int 1024 \<longrightarrow> \<bar>x\<bar> < 2 powi (?e + 1)" "?e \<le> 1024"
    using expoUp_spec[of 0 1024 "\<bar>x\<bar>"] True by auto
  have "?e < 1024"
  proof (rule ccontr)
    assume "\<not> ?e < 1024"
    then have "?e = 1024" using s(3) by simp
    then have "(2::real) powi 1024 \<le> \<bar>x\<bar>" using s(1) by simp
    then show False using assms by simp
  qed
  then show ?thesis using s(2) True by (simp add: expo_def)
next
  case False
  then have "\<bar>x\<bar> < 2 powi (0 + 1)" by simp
  then show ?thesis
    using expoDown_spec[of 1022 0 "\<bar>x\<bar>"] False by (simp add: expo_def)
qed

lemma expo_lower:
  assumes "- 1022 < expo x"
  shows "2 powi (expo x) \<le> \<bar>x\<bar>"
proof (cases "1 \<le> \<bar>x\<bar>")
  case True
  then show ?thesis
    using expoUp_spec[of 0 1024 "\<bar>x\<bar>"] by (simp add: expo_def)
next
  case False
  then show ?thesis
    using expoDown_spec[of 1022 0 "\<bar>x\<bar>"] assms by (simp add: expo_def)
qed



lemma roundTiesEven_int [simp]: "roundTiesEven (of_int n) = n"
  by (simp add: roundTiesEven_def)


lemma roundTiesEven_floor: "\<lfloor>y\<rfloor> \<le> roundTiesEven y \<and> roundTiesEven y \<le> \<lfloor>y\<rfloor> + 1"
  by (simp add: roundTiesEven_def Let_def)

lemma roundTiesEven_le:
  assumes "y \<le> of_int n"
  shows "roundTiesEven y \<le> n"
proof (cases "y = of_int n")
  case True
  then show ?thesis by simp
next
  case False
  then have "y < of_int n" using assms by simp
  then have "\<lfloor>y\<rfloor> < n" by (simp add: floor_less_iff)
  then show ?thesis using roundTiesEven_floor[of y] by linarith
qed

lemma roundTiesEven_ge:
  assumes "of_int n \<le> y"
  shows "n \<le> roundTiesEven y"
proof -
  have "n \<le> \<lfloor>y\<rfloor>" using assms by (simp add: le_floor_iff)
  then show ?thesis using roundTiesEven_floor[of y] by linarith
qed

lemma two_powi_pos [simp]: "0 < (2::real) powi e"
  by (simp add: zero_less_power_int)

lemma expo_le_grid:
  assumes "- 1074 \<le> j" and "\<bar>x\<bar> < 2 powi (j + 53)"
  shows "expo x \<le> j + 52"
proof (rule ccontr)
  assume "\<not> expo x \<le> j + 52"
  then have big: "j + 53 \<le> expo x" by simp
  then have "- 1022 < expo x" using assms(1) by simp
  then have "2 powi (expo x) \<le> \<bar>x\<bar>" by (rule expo_lower)
  moreover have "(2::real) powi (j + 53) \<le> 2 powi (expo x)"
    using big by (intro power_int_increasing) simp_all
  ultimately show False using assms(2) by simp
qed

lemma grid_integer:
  assumes "e \<le> j + 52"
  shows "of_int z * 2 powi j / 2 powi (e - 52) = (of_int (z * 2 ^ nat (j + 52 - e)) :: real)"
proof -
  have "(2::real) powi j / 2 powi (e - 52) = 2 powi (j - (e - 52))"
    by (simp add: power_int_diff)
  also have "\<dots> = 2 ^ nat (j + 52 - e)"
    using assms by (simp add: power_int_nonneg_exp algebra_simps)
  finally have pw: "(2::real) powi j / 2 powi (e - 52) = 2 ^ nat (j + 52 - e)" .
  have "of_int z * 2 powi j / 2 powi (e - 52) = (of_int z :: real) * (2 powi j / 2 powi (e - 52))"
    by simp
  also have "\<dots> = of_int z * 2 ^ nat (j + 52 - e)" by (simp only: pw)
  finally show ?thesis by simp
qed

lemma fl64_le_grid:
  assumes "- 1074 \<le> j" and "\<bar>x\<bar> < 2 powi (j + 53)" and "x \<le> of_int z * 2 powi j"
  shows "fl64 x \<le> of_int z * 2 powi j"
proof -
  let ?u = "(2::real) powi (expo x - 52)"
  have e: "expo x \<le> j + 52" using assms(1,2) by (rule expo_le_grid)
  have "x / ?u \<le> of_int z * 2 powi j / ?u"
    using assms(3) by (simp add: divide_right_mono)
  then have "x / ?u \<le> of_int (z * 2 ^ nat (j + 52 - expo x))"
    using grid_integer[OF e, of z] by simp
  then have "roundTiesEven (x / ?u) \<le> z * 2 ^ nat (j + 52 - expo x)"
    by (rule roundTiesEven_le)
  then have "(of_int (roundTiesEven (x / ?u)) :: real) \<le> of_int (z * 2 ^ nat (j + 52 - expo x))"
    by (simp only: of_int_le_iff)
  then have "of_int (roundTiesEven (x / ?u)) * ?u \<le> of_int (z * 2 ^ nat (j + 52 - expo x)) * ?u"
    by (intro mult_right_mono) simp_all
  also have "\<dots> = of_int z * 2 powi j / ?u * ?u"
    using grid_integer[OF e, of z] by simp
  also have "\<dots> = of_int z * 2 powi j" by simp
  finally show ?thesis by (simp add: fl64_def)
qed

lemma fl64_ge_grid:
  assumes "- 1074 \<le> j" and "\<bar>x\<bar> < 2 powi (j + 53)" and "of_int z * 2 powi j \<le> x"
  shows "of_int z * 2 powi j \<le> fl64 x"
proof -
  let ?u = "(2::real) powi (expo x - 52)"
  have e: "expo x \<le> j + 52" using assms(1,2) by (rule expo_le_grid)
  have "of_int z * 2 powi j / ?u \<le> x / ?u"
    using assms(3) by (simp add: divide_right_mono)
  then have "of_int (z * 2 ^ nat (j + 52 - expo x)) \<le> x / ?u"
    using grid_integer[OF e, of z] by simp
  then have "z * 2 ^ nat (j + 52 - expo x) \<le> roundTiesEven (x / ?u)"
    by (rule roundTiesEven_ge)
  then have "(of_int (z * 2 ^ nat (j + 52 - expo x)) :: real) \<le> of_int (roundTiesEven (x / ?u))"
    by (simp only: of_int_le_iff)
  then have le: "of_int (z * 2 ^ nat (j + 52 - expo x)) * ?u \<le> of_int (roundTiesEven (x / ?u)) * ?u"
    by (intro mult_right_mono) simp_all
  have "of_int z * 2 powi j = of_int z * 2 powi j / ?u * ?u" by simp
  also have "\<dots> = of_int (z * 2 ^ nat (j + 52 - expo x)) * ?u"
    by (simp only: grid_integer[OF e, of z])
  also have "\<dots> \<le> of_int (roundTiesEven (x / ?u)) * ?u" by (rule le)
  finally show ?thesis by (simp add: fl64_def)
qed

lemma fl64_grid_fixed:
  assumes "- 1074 \<le> j" and "\<bar>of_int z * 2 powi j\<bar> < (2::real) powi (j + 53)"
  shows "fl64 (of_int z * 2 powi j) = of_int z * 2 powi j"
  using fl64_le_grid[OF assms, of z] fl64_ge_grid[OF assms, of z] by simp







lemma fl64_0 [simp]: "fl64 0 = 0"
  by (simp add: fl64_def roundTiesEven_def)

lemma toNum_0 [simp]: "toNum 0 = Fin 0"
  by (simp add: toNum_def)

lemma fl64_int_small:
  assumes "\<bar>z\<bar> < 2 ^ 53"
  shows "fl64 (of_int z) = of_int z"
proof -
  have "\<bar>(of_int z :: real)\<bar> < 2 ^ 53"
    using assms by (metis of_int_abs of_int_less_numeral_power_cancel_iff)
  then show ?thesis
    using fl64_grid_fixed[of 0 z] by simp
qed


lemma toNum_not_NaN [simp]: "toNum x \<noteq> NaN"
  by (simp add: toNum_def Let_def)

lemma toNum_Fin:
  assumes "\<bar>fl64 x\<bar> < 2 ^ 1024"
  shows "toNum x = Fin (fl64 x)"
  using assms by (auto simp: toNum_def Let_def abs_less_iff)


lemma power53_big: "(2::real) ^ 53 < 2 ^ 1024"
  by (intro power_strict_increasing) simp_all

lemma toNum_between_ints:
  assumes "of_int lo \<le> x" and "x \<le> of_int hi" and "\<bar>lo\<bar> < 2 ^ 53" and "\<bar>hi\<bar> < 2 ^ 53"
  shows "\<exists>v. toNum x = Fin v \<and> of_int lo \<le> v \<and> v \<le> of_int hi"
proof -
  have rl: "\<bar>(of_int lo :: real)\<bar> < 2 ^ 53" "\<bar>(of_int hi :: real)\<bar> < 2 ^ 53"
    using assms(3,4) by (metis of_int_abs of_int_less_numeral_power_cancel_iff)+
  then have ax: "\<bar>x\<bar> < 2 powi (0 + 53)" using assms(1,2) by (simp add: abs_less_iff)
  have lo: "of_int lo \<le> fl64 x" using fl64_ge_grid[of 0 x lo] ax assms(1) by simp
  have hi: "fl64 x \<le> of_int hi" using fl64_le_grid[of 0 x hi] ax assms(2) by simp
  have "\<bar>fl64 x\<bar> < 2 ^ 53" using lo hi rl by (simp add: abs_less_iff)
  then have "\<bar>fl64 x\<bar> < 2 ^ 1024" using power53_big by linarith
  then show ?thesis using toNum_Fin[of x] lo hi by simp
qed

lemma toNum_int:
  assumes "\<bar>z\<bar> < 2 ^ 53"
  shows "toNum (of_int z) = Fin (of_int z)"
  using toNum_between_ints[of z "of_int z" z] assms by auto



section \<open>Properties of the behaviour patterns\<close>

lemma randomDelay_eq:
  "randomDelay math rnd k mn mx =
     ([WaitForTimeout (mathRound (delayOf math mn mx (rnd k) (rnd (k + 1))))], k + 2)"
  by (simp add: randomDelay_def Let_def)






lemma floor_scaled_unit:
  fixes r :: real
  assumes "0 \<le> r" "r < 1" "0 < n"
  shows "0 \<le> \<lfloor>r * of_int n\<rfloor> \<and> \<lfloor>r * of_int n\<rfloor> < n"
proof -
  have "0 \<le> r * of_int n" using assms by simp
  moreover have "r * of_int n < of_int n" using assms by simp
  ultimately show ?thesis by (simp add: floor_less_iff)
qed


lemma stepsOf_range:
  fixes r :: real
  assumes "0 \<le> r" "r < 1"
  shows "10 \<le> stepsOf r \<and> stepsOf r \<le> 29"
  using floor_scaled_unit[OF assms, of 20] by (simp add: stepsOf_def)


lemma moveLoop_counts:
  "length (filter isMove (fst (moveLoop rnd k ps))) = length ps
   \<and> filter isScroll (fst (moveLoop rnd k ps)) = []"
  by (induction ps arbitrary: k) (simp_all add: Let_def split_beta)

lemma moveLoop_moves:
  "filter isMove (fst (moveLoop rnd k ps)) = map (\<lambda>p. MouseMove (fst p) (snd p)) ps"
  by (induction ps arbitrary: k) (simp_all add: Let_def split_beta)



lemma bezierLoop_map: "bezierLoop c steps i = map (samplePoint c steps) [i..steps]"
proof (induction c steps i rule: bezierLoop.induct)
  case (1 c steps i)
  show ?case
  proof (cases "i \<le> steps")
    case True
    then show ?thesis
      using "1.IH" by (subst bezierLoop.simps, subst upto.simps) simp
  next
    case False
    then show ?thesis by (subst bezierLoop.simps) simp
  qed
qed

lemma bezierLoop_length: "length (bezierLoop c steps 0) = nat (steps + 1)"
  by (simp add: bezierLoop_map)




lemma humanMouseMove_no_viewport:
  "viewportSize page = None \<Longrightarrow> humanMouseMove rnd k page tx ty = ([], k)"
  by (simp add: humanMouseMove_def)

lemma humanMouseMove_moves:
  assumes "viewportSize page = Some (w, h)"
  shows "filter isMove (fst (humanMouseMove rnd k page tx ty)) =
           map (\<lambda>p. MouseMove (fst p) (snd p))
             (fst (generateBezierPoints rnd (k + 3)
                (fmul (fmul (Fin (rnd k)) (Fin w)) (lit (5 / 10)))
                (fmul (fmul (Fin (rnd (k + 1))) (Fin h)) (lit (5 / 10))) tx ty
                (stepsOf (rnd (k + 2)))))"
    and "filter isScroll (fst (humanMouseMove rnd k page tx ty)) = []"
  using assms by (simp_all add: humanMouseMove_def Let_def split_beta moveLoop_moves moveLoop_counts)

lemma humanMouseMove_no_scroll:
  "filter isScroll (fst (humanMouseMove rnd k page tx ty)) = []"
  by (cases "viewportSize page") (auto simp: humanMouseMove_no_viewport humanMouseMove_moves)

lemma humanMouseMove_move_count:
  assumes "viewportSize page = Some (w, h)" "0 \<le> rnd (k + 2)" "rnd (k + 2) < 1"
  shows "length (filter isMove (fst (humanMouseMove rnd k page tx ty))) = nat (stepsOf (rnd (k + 2)) + 1)"
    and "11 \<le> length (filter isMove (fst (humanMouseMove rnd k page tx ty)))"
    and "length (filter isMove (fst (humanMouseMove rnd k page tx ty))) \<le> 30"
proof -
  have len: "length (filter isMove (fst (humanMouseMove rnd k page tx ty))) = nat (stepsOf (rnd (k + 2)) + 1)"
    by (simp add: humanMouseMove_moves(1)[OF assms(1)] generateBezierPoints_def bezierLoop_length)
  show "length (filter isMove (fst (humanMouseMove rnd k page tx ty))) = nat (stepsOf (rnd (k + 2)) + 1)"
    by (rule len)
  show "11 \<le> length (filter isMove (fst (humanMouseMove rnd k page tx ty)))"
    unfolding len using stepsOf_range[OF assms(2,3)] by linarith
  show "length (filter isMove (fst (humanMouseMove rnd k page tx ty))) \<le> 30"
    unfolding len using stepsOf_range[OF assms(2,3)] by linarith
qed

lemma hoverRandomLink_returns:
  assumes "\<And>j. 0 \<le> rnd j \<and> rnd j < 1"
  shows "\<exists>hv k'. hoverRandomLink math rnd k page = Inr (hv, k')
           \<and> filter isScroll hv = []
           \<and> (viewportSize page = None \<longrightarrow> filter isMove hv = [])"
proof (cases "rnd k > 0.5 \<and> length (links page) > 0")
  case False
  then show ?thesis by (auto simp: hoverRandomLink_def)
next
  case True
  let ?idx = "\<lfloor>rnd (k + 1) * of_nat (length (links page))\<rfloor>"
  have "0 \<le> ?idx \<and> ?idx < int (length (links page))"
    using floor_scaled_unit[of "rnd (k + 1)" "int (length (links page))"] assms[of "k + 1"] True
    by simp
  then show ?thesis
    using True
    by (auto simp: hoverRandomLink_def Let_def split_beta randomDelay_eq humanMouseMove_no_scroll
        humanMouseMove_no_viewport split: option.splits)
qed


lemma advanced_shape:
  assumes unit: "\<And>j. 0 \<le> rnd j \<and> rnd j < 1" and pat: "pattern options = ''C''"
  shows "\<exists>d1 mv sc d2 hv k2 k5.
           applyHumanBehavior math rnd k page options = Inr (d1 @ mv @ sc @ d2 @ hv, k5)
           \<and> filter isScroll d1 = [] \<and> filter isMove d1 = []
           \<and> filter isScroll d2 = [] \<and> filter isMove d2 = []
           \<and> filter isScroll mv = []
           \<and> (viewportSize page = None \<longrightarrow> mv = [])
           \<and> (viewportSize page \<noteq> None \<longrightarrow> 11 \<le> length (filter isMove mv))
           \<and> sc = fst (humanScroll math rnd k2)
           \<and> filter isScroll hv = []
           \<and> (viewportSize page = None \<longrightarrow> filter isMove hv = [])"
proof -
  define d1 where "d1 = fst (randomDelay math rnd k (Fin (minDelay options)) (Fin (maxDelay options)))"
  have d1: "filter isScroll d1 = []" "filter isMove d1 = []"
    by (simp_all add: d1_def randomDelay_eq)
  have rd1: "randomDelay math rnd k (Fin (minDelay options)) (Fin (maxDelay options)) = (d1, k + 2)"
    by (simp add: d1_def randomDelay_eq)
  define mvp where "mvp =
    (case viewportSize page of
       None \<Rightarrow> ([], k + 2)
     | Some (width, height) \<Rightarrow>
         (let targetX = fadd (fmul (fmul (Fin (rnd (k + 2))) (Fin width)) (lit (8 / 10)))
                             (fmul (Fin width) (lit (1 / 10)));
              targetY = fadd (fmul (fmul (Fin (rnd (k + 2 + 1))) (Fin height)) (lit (8 / 10)))
                             (fmul (Fin height) (lit (1 / 10)))
          in humanMouseMove rnd (k + 2 + 2) page targetX targetY))"
  obtain mv k2 where mvp: "mvp = (mv, k2)" by (cases mvp)
  obtain sc k3 where sc: "humanScroll math rnd k2 = (sc, k3)" by (cases "humanScroll math rnd k2")
  define d2 where "d2 = fst (randomDelay math rnd k3 (Fin 1000) (Fin 3000))"
  have d2: "filter isScroll d2 = []" "filter isMove d2 = []"
    by (simp_all add: d2_def randomDelay_eq)
  have rd2: "randomDelay math rnd k3 (Fin 1000) (Fin 3000) = (d2, k3 + 2)"
    by (simp add: d2_def randomDelay_eq)
  obtain hv k5 where hv: "hoverRandomLink math rnd (k3 + 2) page = Inr (hv, k5)"
    "filter isScroll hv = []" "viewportSize page = None \<longrightarrow> filter isMove hv = []"
    using hoverRandomLink_returns[where math=math and rnd=rnd and k="k3 + 2" and page=page, OF unit]
    by (elim exE conjE) (rule that)
  have eq: "applyHumanBehavior math rnd k page options = Inr (d1 @ mv @ sc @ d2 @ hv, k5)"
    unfolding applyHumanBehavior_def pat rd1 prod.case Let_def[of "(d1, k + 2)"]
      mvp_def[symmetric] mvp
    unfolding Let_def sc prod.case rd2 hv(1) sum.case
    by simp
  have mv_eq: "mv = fst mvp" using mvp by simp
  have mv_scroll: "filter isScroll mv = []"
    unfolding mv_eq mvp_def
    by (cases "viewportSize page") (auto simp: Let_def humanMouseMove_no_scroll)
  have mv_none: "viewportSize page = None \<longrightarrow> mv = []"
    unfolding mv_eq mvp_def by simp
  have mv_some: "viewportSize page \<noteq> None \<longrightarrow> 11 \<le> length (filter isMove mv)"
  proof
    assume "viewportSize page \<noteq> None"
    then obtain w h where vp: "viewportSize page = Some (w, h)" by (cases "viewportSize page") auto
    show "11 \<le> length (filter isMove mv)"
      unfolding mv_eq mvp_def vp option.case prod.case Let_def
      using unit[of "k + 2 + 2 + 2"]
      by (intro humanMouseMove_move_count(2)[OF vp]) simp_all
  qed
  have sc_eq: "sc = fst (humanScroll math rnd k2)" by (simp add: sc)
  show ?thesis
    by (intro exI[of _ d1] exI[of _ mv] exI[of _ sc] exI[of _ d2]
        exI[of _ hv] exI[of _ k2] exI[of _ k5] conjI)
      (rule eq d1 d2 mv_scroll mv_none mv_some sc_eq hv(2) hv(3))+
qed


lemma applyHumanBehavior_returns:
  assumes unit: "\<And>j. 0 \<le> rnd j \<and> rnd j < 1"
  shows "\<exists>r. applyHumanBehavior math rnd k page options = Inr r"
proof (cases "pattern options = ''C''")
  case True
  then show ?thesis
    using advanced_shape[where math=math and rnd=rnd and k=k and page=page and options=options, OF unit]
    by blast
next
  case False
  then show ?thesis
    by (simp add: applyHumanBehavior_def Let_def split_beta)
qed




section \<open>Properties of the pointer path\<close>




lemma toNum_1 [simp]: "toNum 1 = Fin 1"
  using toNum_int[of 1] by simp

lemma toNum_3 [simp]: "toNum 3 = Fin 3"
  using toNum_int[of 3] by simp































section \<open>Properties of the random delay\<close>




























section \<open>Properties of the configuration\<close>

lemma applyHumanBehavior_unknown:
  "pattern options \<notin> {''A'', ''B'', ''C''} \<Longrightarrow> applyHumanBehavior math rnd k page options = Inr ([], k)"
  by (simp add: applyHumanBehavior_def)

lemma orElse_nonempty: "p \<noteq> [] \<Longrightarrow> orElse (Some p) d = p"
  by (simp add: orElse_def)

text \<open>
  C5. The claim says a pattern identifier outside A, B, C raises an error at session
  setup, before any visit. Nothing checks the identifier: with
  \<open>HUMAN_BEHAVIOR_PATTERN=Z\<close> the configuration holds \<open>Z\<close>, \<open>initialize\<close> succeeds and opens the
  page, and at visit time \<open>applyHumanBehavior\<close> returns without doing anything.
\<close>

theorem unknown_pattern_counterexample:
  "''Z'' \<notin> {''A'', ''B'', ''C''}
   \<and> pattern (humanBehavior (loadConfig parseDigits (patternEnv ''Z''))) = ''Z''
   \<and> fst (initialize None (newScraper (loadConfig parseDigits (patternEnv ''Z'')))) = None
   \<and> hasPage (snd (initialize None (newScraper (loadConfig parseDigits (patternEnv ''Z'')))))
   \<and> applyHumanBehavior idealMath (constantSamples (1 / 2)) 0 (blankPage (Some (1920, 1080)))
        (humanBehavior (loadConfig parseDigits (patternEnv ''Z''))) = Inr ([], 0)"
  by (simp add: loadConfig_def patternEnv_def orElse_def initialize_def newScraper_def
      applyHumanBehavior_def)

text \<open>
  C5, amended. If the session is configured with a pattern identifier outside the
  recognized set A, B, C, no error is raised at any point: \<open>loadConfig\<close> stores the
  identifier as it is, session setup succeeds with that configuration, and at visit time
  \<open>applyHumanBehavior\<close> matches no case and performs no action.
\<close>

theorem unknown_pattern_is_accepted:
  "p \<notin> {''A'', ''B'', ''C''} \<and> p \<noteq> [] \<and> env ''HUMAN_BEHAVIOR_PATTERN'' = Some p \<longrightarrow>
     pattern (humanBehavior (loadConfig parseInt env)) = p
     \<and> initialize None (newScraper (loadConfig parseInt env))
         = (None, (newScraper (loadConfig parseInt env))\<lparr>hasPage := True\<rparr>)
     \<and> config (snd (initialize None (newScraper (loadConfig parseInt env)))) = loadConfig parseInt env
     \<and> applyHumanBehavior math rnd k page (humanBehavior (loadConfig parseInt env)) = Inr ([], k)"
proof (intro impI)
  assume a: "p \<notin> {''A'', ''B'', ''C''} \<and> p \<noteq> [] \<and> env ''HUMAN_BEHAVIOR_PATTERN'' = Some p"
  then have pat: "pattern (humanBehavior (loadConfig parseInt env)) = p"
    by (simp add: loadConfig_def orElse_nonempty)
  have init: "initialize None (newScraper (loadConfig parseInt env))
         = (None, (newScraper (loadConfig parseInt env))\<lparr>hasPage := True\<rparr>)"
    by (simp add: initialize_def)
  have cfg: "config (snd (initialize None (newScraper (loadConfig parseInt env)))) = loadConfig parseInt env"
    by (simp add: initialize_def newScraper_def)
  have beh: "applyHumanBehavior math rnd k page (humanBehavior (loadConfig parseInt env)) = Inr ([], k)"
    using a pat by (intro applyHumanBehavior_unknown) simp
  show "pattern (humanBehavior (loadConfig parseInt env)) = p
     \<and> initialize None (newScraper (loadConfig parseInt env))
         = (None, (newScraper (loadConfig parseInt env))\<lparr>hasPage := True\<rparr>)
     \<and> config (snd (initialize None (newScraper (loadConfig parseInt env)))) = loadConfig parseInt env
     \<and> applyHumanBehavior math rnd k page (humanBehavior (loadConfig parseInt env)) = Inr ([], k)"
    using pat init cfg beh by (intro conjI)
qed

theorem unknown_pattern_witness:
  "''mechanical'' \<notin> {''A'', ''B'', ''C''}
   \<and> patternEnv ''mechanical'' ''HUMAN_BEHAVIOR_PATTERN'' = Some ''mechanical''
   \<and> pattern (humanBehavior (loadConfig parseDigits (patternEnv ''mechanical''))) = ''mechanical''
   \<and> applyHumanBehavior idealMath (constantSamples (1 / 2)) 7 (blankPage None)
        (humanBehavior (loadConfig parseDigits (patternEnv ''mechanical''))) = Inr ([], 7)"
  using unknown_pattern_is_accepted
    [where p = "''mechanical''" and env = "patternEnv ''mechanical''" and parseInt = parseDigits
       and math = idealMath and rnd = "constantSamples (1 / 2)" and k = 7 and page = "blankPage None"]
  by (simp add: patternEnv_def)


section \<open>Properties of navigate\<close>

lemma navigateTry_completes:
  assumes "gotoFailure visit = None"
    and "hostname targetUrl = Some d1" and "hostname (url (loadedPage visit)) = Some d2"
    and unit: "\<And>j. 0 \<le> samples visit j \<and> samples visit j < 1"
  shows "\<exists>result. navigateTry hostname visit targetUrl scraper =
           Inr (result, scraper\<lparr>requestCount := requestCount scraper + 1,
                                 lastRequestTime := doneNow visit\<rparr>)
           \<and> success result = (\<not> isBanned (banSignals result))"
proof -
  obtain performed where beh:
    "(if humanBehaviorEnabled (config scraper)
      then applyHumanBehavior (mathLib visit) (samples visit) 0 (loadedPage visit)
             (humanBehavior (config scraper))
      else Inr ([], 0)) = Inr performed"
    using applyHumanBehavior_returns[where math="mathLib visit" and rnd="samples visit" and k=0 and page="loadedPage visit"
        and options="humanBehavior (config scraper)", OF unit]
    by (cases "humanBehaviorEnabled (config scraper)") auto
  obtain detected where det:
    "detectBanSignals hostname (loadedPage visit) (detectNow visit) (startNow visit) targetUrl = Inr detected"
    using assms(2,3) by (simp add: detectBanSignals_def Let_def)
  show ?thesis
    unfolding navigateTry_def assms(1) option.case beh sum.case det Let_def
    by (cases "isBanned (detected\<lparr>httpError :=
          getHttpError (observeResponses setupResponseMonitor (responses visit))\<rparr>)") simp_all
qed

lemma navigateTry_counts:
  "navigateTry hostname visit targetUrl scraper = Inr (result, scraper1) \<Longrightarrow>
     scraper1 = scraper\<lparr>requestCount := requestCount scraper + 1, lastRequestTime := doneNow visit\<rparr>"
  by (auto simp: navigateTry_def Let_def split: option.splits sum.splits if_splits)

lemma navigate_requestCount:
  "requestCount scraper \<le> requestCount (snd (navigate hostname visit targetUrl scraper))
   \<and> requestCount (snd (navigate hostname visit targetUrl scraper)) \<le> requestCount scraper + 1
   \<and> (requestCount (snd (navigate hostname visit targetUrl scraper)) = requestCount scraper \<longrightarrow>
        snd (navigate hostname visit targetUrl scraper) = scraper)"
proof (cases "navigateTry hostname visit targetUrl scraper")
  case (Inl e)
  then show ?thesis by (simp add: navigate_def)
next
  case (Inr r)
  obtain result scraper1 where r: "r = (result, scraper1)" by (cases r)
  from navigateTry_counts[of hostname visit targetUrl scraper result scraper1] Inr r
  show ?thesis by (simp add: navigate_def)
qed

lemma readyScraper_eq:
  "readyScraper = \<lparr>hasPage = True, config = defaultConfig, requestCount = 0, lastRequestTime = 0\<rparr>"
  by (simp add: readyScraper_def initialize_def newScraper_def)

text \<open>
  C4. The claim says every visit attempt, a transport-level failure included, increases
  \<open>requestCount\<close> by exactly 1 and updates \<open>lastVisitTime\<close>. The two updates stand inside the
  \<open>try\<close> block after the detector; when \<open>page.goto\<close> rejects, the \<open>catch\<close> block returns the
  degraded result and both counters keep their values.
\<close>

theorem navigate_transport_failure_counterexample:
  "hasPage readyScraper
   \<and> fst (navigate plainHostname refusedVisit ''https://jp.mercari.com/item/m1'' readyScraper) =
       Inr \<lparr>success = False,
            banSignals = \<lparr>captchaDetected = False, httpError = None, unexpectedRedirect = False,
                           contentMissing = True, jsChallenge = False,
                           responseTimeMs = 30, blockedUrl = None\<rparr>,
            error = Some ''net::ERR_CONNECTION_REFUSED''\<rparr>
   \<and> requestCount (snd (navigate plainHostname refusedVisit ''https://jp.mercari.com/item/m1'' readyScraper))
       = requestCount readyScraper
   \<and> requestCount (snd (navigate plainHostname refusedVisit ''https://jp.mercari.com/item/m1'' readyScraper))
       \<noteq> requestCount readyScraper + 1
   \<and> lastRequestTime (snd (navigate plainHostname refusedVisit ''https://jp.mercari.com/item/m1'' readyScraper))
       = lastRequestTime readyScraper"
  by (simp add: navigate_def navigateTry_def refusedVisit_def okVisit_def readyScraper_eq)

text \<open>
  C4, amended. For every visit attempt of an initialized session in which navigation,
  behaviour and detection complete, whether the verdict is banned or not, \<open>requestCount\<close>
  increases by exactly 1 and \<open>lastRequestTime\<close> is set to the time of completion. When the
  navigation fails with a transport-level error the call still returns a result (not
  successful, content missing, no ban channel set) and leaves \<open>requestCount\<close> and
  \<open>lastRequestTime\<close> unchanged; without a page the call throws and changes nothing. In
  every case \<open>requestCount\<close> never decreases and never grows by more than 1.
\<close>

theorem navigate_counts_completed_visits:
  "(hasPage scraper \<and> gotoFailure visit = None
      \<and> hostname targetUrl = Some d1 \<and> hostname (url (loadedPage visit)) = Some d2
      \<and> (\<forall>j. 0 \<le> samples visit j \<and> samples visit j < 1) \<longrightarrow>
        (\<exists>result scraper1. navigate hostname visit targetUrl scraper = (Inr result, scraper1)
            \<and> requestCount scraper1 = requestCount scraper + 1
            \<and> lastRequestTime scraper1 = doneNow visit
            \<and> success result = (\<not> isBanned (banSignals result))))
   \<and> (hasPage scraper \<and> gotoFailure visit = Some m \<longrightarrow>
        navigate hostname visit targetUrl scraper =
          (Inr \<lparr>success = False,
                 banSignals = \<lparr>captchaDetected = False, httpError = None, unexpectedRedirect = False,
                                contentMissing = True, jsChallenge = False,
                                responseTimeMs = failNow visit - startNow visit, blockedUrl = None\<rparr>,
                 error = Some m\<rparr>,
           scraper))
   \<and> (\<not> hasPage scraper \<longrightarrow>
        navigate hostname visit targetUrl scraper = (Inl (Error ''Page not initialized''), scraper))
   \<and> requestCount scraper \<le> requestCount (snd (navigate hostname visit targetUrl scraper))
   \<and> requestCount (snd (navigate hostname visit targetUrl scraper)) \<le> requestCount scraper + 1
   \<and> (requestCount (snd (navigate hostname visit targetUrl scraper)) = requestCount scraper \<longrightarrow>
        lastRequestTime (snd (navigate hostname visit targetUrl scraper)) = lastRequestTime scraper)"
proof -
  have completed: "hasPage scraper \<and> gotoFailure visit = None
      \<and> hostname targetUrl = Some d1 \<and> hostname (url (loadedPage visit)) = Some d2
      \<and> (\<forall>j. 0 \<le> samples visit j \<and> samples visit j < 1) \<longrightarrow>
        (\<exists>result scraper1. navigate hostname visit targetUrl scraper = (Inr result, scraper1)
            \<and> requestCount scraper1 = requestCount scraper + 1
            \<and> lastRequestTime scraper1 = doneNow visit
            \<and> success result = (\<not> isBanned (banSignals result)))"
  proof
    assume a: "hasPage scraper \<and> gotoFailure visit = None
      \<and> hostname targetUrl = Some d1 \<and> hostname (url (loadedPage visit)) = Some d2
      \<and> (\<forall>j. 0 \<le> samples visit j \<and> samples visit j < 1)"
    then have unit: "\<And>j. 0 \<le> samples visit j \<and> samples visit j < 1" by simp
    obtain result where r: "navigateTry hostname visit targetUrl scraper =
           Inr (result, scraper\<lparr>requestCount := requestCount scraper + 1,
                                 lastRequestTime := doneNow visit\<rparr>)"
        "success result = (\<not> isBanned (banSignals result))"
      using navigateTry_completes[where visit=visit and hostname=hostname and targetUrl=targetUrl
          and ?d1.0=d1 and ?d2.0=d2 and scraper=scraper, OF _ _ _ unit] a
      by auto
    show "\<exists>result scraper1. navigate hostname visit targetUrl scraper = (Inr result, scraper1)
            \<and> requestCount scraper1 = requestCount scraper + 1
            \<and> lastRequestTime scraper1 = doneNow visit
            \<and> success result = (\<not> isBanned (banSignals result))"
      using a r
      by (intro exI[of _ result] exI[of _ "scraper\<lparr>requestCount := requestCount scraper + 1,
                                 lastRequestTime := doneNow visit\<rparr>"])
         (simp add: navigate_def)
  qed
  have failed: "hasPage scraper \<and> gotoFailure visit = Some m \<longrightarrow>
        navigate hostname visit targetUrl scraper =
          (Inr \<lparr>success = False,
                 banSignals = \<lparr>captchaDetected = False, httpError = None, unexpectedRedirect = False,
                                contentMissing = True, jsChallenge = False,
                                responseTimeMs = failNow visit - startNow visit, blockedUrl = None\<rparr>,
                 error = Some m\<rparr>,
           scraper)"
    by (simp add: navigate_def navigateTry_def)
  have nopage: "\<not> hasPage scraper \<longrightarrow>
        navigate hostname visit targetUrl scraper = (Inl (Error ''Page not initialized''), scraper)"
    by (simp add: navigate_def)
  note cnt = navigate_requestCount[of scraper hostname visit targetUrl]
  have last: "requestCount (snd (navigate hostname visit targetUrl scraper)) = requestCount scraper \<longrightarrow>
        lastRequestTime (snd (navigate hostname visit targetUrl scraper)) = lastRequestTime scraper"
    using cnt by auto
  show ?thesis
    by (intro conjI) (rule completed failed nopage cnt[THEN conjunct1] cnt[THEN conjunct2, THEN conjunct1] last)+
qed

theorem navigate_counts_witness:
  "hasPage readyScraper \<and> gotoFailure okVisit = None
   \<and> plainHostname ''https://jp.mercari.com/item/m1'' = Some ''jp.mercari.com''
   \<and> plainHostname (url (loadedPage okVisit)) = Some ''jp.mercari.com''
   \<and> (\<forall>j. 0 \<le> samples okVisit j \<and> samples okVisit j < 1)
   \<and> requestCount (snd (navigate plainHostname okVisit ''https://jp.mercari.com/item/m1'' readyScraper)) = 1
   \<and> lastRequestTime (snd (navigate plainHostname okVisit ''https://jp.mercari.com/item/m1'' readyScraper)) = 160
   \<and> gotoFailure refusedVisit = Some ''net::ERR_CONNECTION_REFUSED''
   \<and> requestCount (snd (navigate plainHostname refusedVisit ''https://jp.mercari.com/item/m1'' readyScraper)) = 0"
proof -
  have pre: "hasPage readyScraper" "gotoFailure okVisit = None"
    "plainHostname ''https://jp.mercari.com/item/m1'' = Some ''jp.mercari.com''"
    "plainHostname (url (loadedPage okVisit)) = Some ''jp.mercari.com''"
    "\<forall>j. 0 \<le> samples okVisit j \<and> samples okVisit j < 1"
    "gotoFailure refusedVisit = Some ''net::ERR_CONNECTION_REFUSED''"
    "requestCount readyScraper = 0" "doneNow okVisit = 160"
    by (simp_all add: readyScraper_eq okVisit_def refusedVisit_def blankPage_def
        plainHostname_mercari constantSamples_def)
  from navigate_counts_completed_visits
      [where scraper = readyScraper and visit = okVisit and hostname = plainHostname
         and targetUrl = "''https://jp.mercari.com/item/m1''" and ?d1.0 = "''jp.mercari.com''"
         and ?d2.0 = "''jp.mercari.com''" and m = "''x''"]
    navigate_counts_completed_visits
      [where scraper = readyScraper and visit = refusedVisit and hostname = plainHostname
         and targetUrl = "''https://jp.mercari.com/item/m1''" and ?d1.0 = "''jp.mercari.com''"
         and ?d2.0 = "''jp.mercari.com''" and m = "''net::ERR_CONNECTION_REFUSED''"]
    pre
  show ?thesis by auto
qed

end
